theory Spec2Isabelle
  imports Main "HOL-Library.AList" "HOL-Library.Multiset"
begin

section \<open>The mock blockchain of src/services/web3Service.ts\<close>

text \<open>
  The class \<open>MockBlockchain\<close> keeps three JavaScript \<open>Map\<close>s, the connected account and
  the admin flag. A \<open>Map\<close> iterates in insertion order and \<open>set\<close> on a present key
  replaces the value in place, which is what \<open>AList.update\<close> does on an association
  list. Every public method runs its body inside one \<open>setTimeout\<close> callback, so each call
  is one atomic step on the state; the values the body draws from \<open>Date.now()\<close> and
  \<open>Math.random()\<close> are parameters of the step. JavaScript numbers that hold clock
  readings and counters are modelled as \<open>int\<close>.
\<close>

subsection \<open>Data\<close>

record candidate =
  c_id :: string
  name :: string
  c_description :: string
  voteCount :: int
  imageUrl :: "string option"

record election =
  e_id :: string
  title :: string
  e_description :: string
  startTime :: int
  endTime :: int
  isActive :: bool
  candidates :: "candidate list"
  totalVotes :: int

record vote =
  electionId :: string
  candidateId :: string
  voterAddress :: string
  timestamp :: int
  txHash :: string

record voter =
  address :: string
  isRegistered :: bool
  hasVoted :: "(string \<times> bool) list"

record state =
  elections :: "(string \<times> election) list"
  votes :: "(string \<times> vote list) list"
  voters :: "(string \<times> voter) list"
  currentAccount :: "string option"
  isAdmin :: bool

text \<open>The messages of the \<open>Error\<close> objects the promises are rejected with.\<close>

datatype error =
    WalletNotConnected    \<comment> \<open>"Wallet not connected"\<close>
  | ElectionNotFound      \<comment> \<open>"Election not found"\<close>
  | ElectionNotActive     \<comment> \<open>"Election is not active"\<close>
  | AlreadyVoted          \<comment> \<open>"You have already voted in this election"\<close>
  | CandidateNotFound     \<comment> \<open>"Candidate not found"\<close>
  | OnlyAdminCreate       \<comment> \<open>"Only admin can create elections"\<close>
  | OnlyAdminAdd          \<comment> \<open>"Only admin can add candidates"\<close>

datatype tx_status = Pending | Confirmed | Failed

subsection \<open>Numbers as decimal strings\<close>

text \<open>\<open>"election-" + Date.now()\<close> appends the decimal digits of the clock reading.\<close>

definition digit :: "nat \<Rightarrow> char" where
  "digit d = ''0123456789'' ! d"

function string_of_nat :: "nat \<Rightarrow> string" where
  "string_of_nat n =
     (if n < 10 then [digit n]
      else string_of_nat (n div 10) @ [digit (n mod 10)])"
  by pat_completeness auto
termination
  by (relation "measure id") auto

declare string_of_nat.simps [simp del]

definition string_of_number :: "int \<Rightarrow> string" where
  "string_of_number i =
     (if i < 0 then CHR ''-'' # string_of_nat (nat (- i)) else string_of_nat (nat i))"

subsection \<open>Construction\<close>

definition empty_state :: state where
  "empty_state =
     \<lparr>elections = [], votes = [], voters = [], currentAccount = None, isAdmin = False\<rparr>"

definition sampleElection :: "int \<Rightarrow> int \<Rightarrow> election" where
  "sampleElection now1 now2 =
     \<lparr>e_id = ''election-1'',
      title = ''2024 Student Council Elections'',
      e_description = ''Vote for your preferred student council president'',
      startTime = now1 - 3600000,
      endTime = now2 + 86400000,
      isActive = True,
      candidates =
        [\<lparr>c_id = ''candidate-1'', name = ''Alice Johnson'',
          c_description = ''Experienced leader with vision for positive change'',
          voteCount = 0, imageUrl = None\<rparr>,
         \<lparr>c_id = ''candidate-2'', name = ''Bob Smith'',
          c_description = ''Fresh perspective and innovative ideas'',
          voteCount = 0, imageUrl = None\<rparr>,
         \<lparr>c_id = ''candidate-3'', name = ''Carol Davis'',
          c_description = ''Proven track record in student advocacy'',
          voteCount = 0, imageUrl = None\<rparr>],
      totalVotes = 0\<rparr>"

text \<open>The constructor: \<open>initializeSampleData\<close> on the empty maps, with its two clock readings.\<close>

definition initializeSampleData :: "int \<Rightarrow> int \<Rightarrow> state" where
  "initializeSampleData now1 now2 =
     (let sample = sampleElection now1 now2
      in empty_state
           \<lparr>elections := AList.update (e_id sample) sample (elections empty_state),
            votes := AList.update (e_id sample) [] (votes empty_state)\<rparr>)"

subsection \<open>Wallet\<close>

text \<open>
  \<open>mockAddress\<close> is the random address and \<open>admin\<close> the outcome of
  \<open>Math.random() > 0.5\<close>.
\<close>

definition connectWallet :: "state \<Rightarrow> string \<Rightarrow> bool \<Rightarrow> string \<times> state" where
  "connectWallet s mockAddress admin =
     (let s1 = s\<lparr>currentAccount := Some mockAddress, isAdmin := admin\<rparr>;
          s2 = (if map_of (voters s1) mockAddress = None
                then s1\<lparr>voters := AList.update mockAddress
                        \<lparr>address = mockAddress, isRegistered = True, hasVoted = []\<rparr>
                        (voters s1)\<rparr>
                else s1)
      in (mockAddress, s2))"

definition disconnectWallet :: "state \<Rightarrow> state" where
  "disconnectWallet s = s\<lparr>currentAccount := None, isAdmin := False\<rparr>"

definition getCurrentAccount :: "state \<Rightarrow> string option" where
  "getCurrentAccount s = currentAccount s"

definition getIsAdmin :: "state \<Rightarrow> bool" where
  "getIsAdmin s = isAdmin s"

text \<open>
  \<open>this.currentAccount\<close> used as a condition: \<open>null\<close> and the empty string are both
  falsy.
\<close>

definition truthyAccount :: "state \<Rightarrow> string option" where
  "truthyAccount s =
     (case currentAccount s of
        None \<Rightarrow> None
      | Some a \<Rightarrow> if a = [] then None else Some a)"

text \<open>The private method \<open>hasVoted\<close>: \<open>voter?.hasVoted[electionId] || false\<close>.\<close>

definition hasVoted_in :: "state \<Rightarrow> string \<Rightarrow> string \<Rightarrow> bool" where
  "hasVoted_in s eid voterAddr =
     (case map_of (voters s) voterAddr of
        None \<Rightarrow> False
      | Some v \<Rightarrow> (case map_of (hasVoted v) eid of None \<Rightarrow> False | Some b \<Rightarrow> b))"

subsection \<open>Election management\<close>

text \<open>
  \<open>createElection\<close> reads the clock three times: for the identifier and for the two
  comparisons of \<open>isActive\<close>.
\<close>

definition createElection ::
  "state \<Rightarrow> string \<Rightarrow> string \<Rightarrow> int \<Rightarrow> int \<Rightarrow> int \<Rightarrow> int \<Rightarrow> int \<Rightarrow> (error + string) \<times> state" where
  "createElection s ttl descr start end now_id now_a now_b =
     (if \<not> isAdmin s then (Inl OnlyAdminCreate, s)
      else
        let electionId = ''election-'' @ string_of_number now_id;
            newElection =
              \<lparr>e_id = electionId, title = ttl, e_description = descr,
               startTime = start, endTime = end,
               isActive = (now_a \<ge> start \<and> now_b \<le> end),
               candidates = [], totalVotes = 0\<rparr>
        in (Inr electionId,
            s\<lparr>elections := AList.update electionId newElection (elections s),
              votes := AList.update electionId [] (votes s)\<rparr>))"

definition addCandidate ::
  "state \<Rightarrow> string \<Rightarrow> string \<Rightarrow> string \<Rightarrow> string option \<Rightarrow> int \<Rightarrow> (error + string) \<times> state" where
  "addCandidate s eid nm descr img now =
     (if \<not> isAdmin s then (Inl OnlyAdminAdd, s)
      else
        case map_of (elections s) eid of
          None \<Rightarrow> (Inl ElectionNotFound, s)
        | Some election \<Rightarrow>
            let candidateId = ''candidate-'' @ string_of_number now;
                newCandidate =
                  \<lparr>c_id = candidateId, name = nm, c_description = descr,
                   voteCount = 0, imageUrl = img\<rparr>;
                election' = election\<lparr>candidates := candidates election @ [newCandidate]\<rparr>
            in (Inr candidateId,
                s\<lparr>elections := AList.update eid election' (elections s)\<rparr>))"

text \<open>The read operations return each election with the caller's \<open>hasVoted\<close> projection.\<close>

definition projectedHasVoted :: "state \<Rightarrow> string \<Rightarrow> bool" where
  "projectedHasVoted s eid =
     (case truthyAccount s of None \<Rightarrow> False | Some a \<Rightarrow> hasVoted_in s eid a)"

definition getAllElections :: "state \<Rightarrow> (election \<times> bool) list \<times> state" where
  "getAllElections s =
     (map (\<lambda>e. (e, projectedHasVoted s (e_id e))) (map snd (elections s)), s)"

definition getElection :: "state \<Rightarrow> string \<Rightarrow> (election \<times> bool) option \<times> state" where
  "getElection s eid =
     (case map_of (elections s) eid of
        Some e \<Rightarrow> (Some (e, projectedHasVoted s eid), s)
      | None \<Rightarrow> (None, s))"

subsection \<open>Voting\<close>

text \<open>
  \<open>election.candidates.find(c => c.id === candidateId)\<close> yields the first candidate with
  that identifier, and \<open>candidate.voteCount++\<close> changes that object inside the array.
\<close>

fun incrementFound :: "string \<Rightarrow> candidate list \<Rightarrow> candidate list" where
  "incrementFound cid [] = []"
| "incrementFound cid (c # cs) =
     (if c_id c = cid then c\<lparr>voteCount := voteCount c + 1\<rparr> # cs
      else c # incrementFound cid cs)"

definition castVote ::
  "state \<Rightarrow> string \<Rightarrow> string \<Rightarrow> int \<Rightarrow> string \<Rightarrow> (error + string) \<times> state" where
  "castVote s eid cid now hash =
     (case truthyAccount s of
        None \<Rightarrow> (Inl WalletNotConnected, s)
      | Some account \<Rightarrow>
          (case map_of (elections s) eid of
             None \<Rightarrow> (Inl ElectionNotFound, s)
           | Some election \<Rightarrow>
               if \<not> isActive election then (Inl ElectionNotActive, s)
               else if hasVoted_in s eid account then (Inl AlreadyVoted, s)
               else
                 (case find (\<lambda>c. c_id c = cid) (candidates election) of
                    None \<Rightarrow> (Inl CandidateNotFound, s)
                  | Some _ \<Rightarrow>
                      let v = \<lparr>electionId = eid, candidateId = cid, voterAddress = account,
                               timestamp = now, txHash = hash\<rparr>;
                          election' = election
                            \<lparr>candidates := incrementFound cid (candidates election),
                             totalVotes := totalVotes election + 1\<rparr>;
                          electionVotes =
                            (case map_of (votes s) eid of None \<Rightarrow> [] | Some vs \<Rightarrow> vs);
                          votes' = AList.update eid (electionVotes @ [v]) (votes s);
                          voters' =
                            (case map_of (voters s) account of
                               None \<Rightarrow> voters s
                             | Some vr \<Rightarrow>
                                 AList.update account
                                   (vr\<lparr>hasVoted := AList.update eid True (hasVoted vr)\<rparr>)
                                   (voters s));
                          elections' = AList.update eid election' (elections s)
                      in (Inr hash,
                          s\<lparr>elections := elections', votes := votes', voters := voters'\<rparr>))))"

subsection \<open>Results\<close>

text \<open>
  \<open>Array.prototype.sort\<close> is a stable sort: an element goes before another when the
  comparator is negative, and elements that compare equal keep their order. Insertion
  from the right, in front of the first element that does not compare smaller, is such a
  sort.
\<close>

fun insertBy :: "('a \<Rightarrow> 'a \<Rightarrow> int) \<Rightarrow> 'a \<Rightarrow> 'a list \<Rightarrow> 'a list" where
  "insertBy cmp x [] = [x]"
| "insertBy cmp x (y # ys) =
     (if cmp x y \<le> 0 then x # y # ys else y # insertBy cmp x ys)"

definition stableSort :: "('a \<Rightarrow> 'a \<Rightarrow> int) \<Rightarrow> 'a list \<Rightarrow> 'a list" where
  "stableSort cmp xs = foldr (insertBy cmp) xs []"

definition byVoteCountDesc :: "candidate \<Rightarrow> candidate \<Rightarrow> int" where
  "byVoteCountDesc a b = voteCount b - voteCount a"

definition getElectionResults :: "state \<Rightarrow> string \<Rightarrow> (error + candidate list) \<times> state" where
  "getElectionResults s eid =
     (case map_of (elections s) eid of
        None \<Rightarrow> (Inl ElectionNotFound, s)
      | Some election \<Rightarrow> (Inr (stableSort byVoteCountDesc (candidates election)), s))"

subsection \<open>Transaction status\<close>

text \<open>
  \<open>k\<close> is \<open>Math.floor(Math.random() * outcomes.length)\<close>; an index outside the array
  would read \<open>undefined\<close>, modelled as \<open>None\<close>.
\<close>

definition outcomes :: "tx_status list" where
  "outcomes = [Confirmed, Confirmed, Confirmed, Pending, Failed]"

definition getTransactionStatus :: "state \<Rightarrow> string \<Rightarrow> nat \<Rightarrow> tx_status option \<times> state" where
  "getTransactionStatus s hash k =
     ((if k < length outcomes then Some (outcomes ! k) else None), s)"

subsection \<open>Sequences of calls\<close>

datatype call =
    ConnectWallet string bool
  | DisconnectWallet
  | CreateElection string string int int int int int
  | AddCandidate string string string "string option" int
  | GetAllElections
  | GetElection string
  | CastVote string string int string
  | GetElectionResults string
  | GetTransactionStatus string nat

fun exec :: "state \<Rightarrow> call \<Rightarrow> state" where
  "exec s (ConnectWallet a adm) = snd (connectWallet s a adm)"
| "exec s DisconnectWallet = disconnectWallet s"
| "exec s (CreateElection t d st en n1 n2 n3) = snd (createElection s t d st en n1 n2 n3)"
| "exec s (AddCandidate eid nm d img now) = snd (addCandidate s eid nm d img now)"
| "exec s GetAllElections = snd (getAllElections s)"
| "exec s (GetElection eid) = snd (getElection s eid)"
| "exec s (CastVote eid cid now hash) = snd (castVote s eid cid now hash)"
| "exec s (GetElectionResults eid) = snd (getElectionResults s eid)"
| "exec s (GetTransactionStatus hash k) = snd (getTransactionStatus s hash k)"

definition run :: "state \<Rightarrow> call list \<Rightarrow> state" where
  "run s cs = foldl exec s cs"

subsection \<open>Invariants\<close>

text \<open>Every election's total is the sum of its candidates' counts.\<close>

definition tallies_ok :: "state \<Rightarrow> bool" where
  "tallies_ok s =
     (\<forall>e \<in> snd ` set (elections s). totalVotes e = sum_list (map voteCount (candidates e)))"

text \<open>The connected account has a voter record: \<open>connectWallet\<close> registers it.\<close>

definition registered :: "state \<Rightarrow> bool" where
  "registered s = (\<forall>a. currentAccount s = Some a \<longrightarrow> map_of (voters s) a \<noteq> None)"

text \<open>
  The vote log: one entry per election identifier; each vote is filed under its own
  election, its voter's flag for that election is set, and no voter occurs twice in an
  election's log.
\<close>

definition ledger_ok :: "state \<Rightarrow> bool" where
  "ledger_ok s =
     (distinct (map fst (votes s)) \<and>
      (\<forall>(eid, vs) \<in> set (votes s).
         (\<forall>v \<in> set vs. electionId v = eid \<and> hasVoted_in s eid (voterAddress v)) \<and>
         distinct (map voterAddress vs)))"

section \<open>Evaluation and auxiliary facts\<close>

lemmas eval_defs = run_def initializeSampleData_def sampleElection_def empty_state_def
      connectWallet_def disconnectWallet_def castVote_def createElection_def addCandidate_def
      truthyAccount_def hasVoted_in_def string_of_number_def string_of_nat.simps digit_def
      Let_def getElectionResults_def stableSort_def byVoteCountDesc_def

lemma set_update_subset: "set (AList.update k v al) \<subseteq> insert (k, v) (set al)"
  by (induction al) auto

lemma sum_incrementFound:
  "find (\<lambda>c. c_id c = cid) cs = Some c \<Longrightarrow>
   sum_list (map voteCount (incrementFound cid cs)) = sum_list (map voteCount cs) + 1"
  by (induction cs) (auto split: if_splits)

lemma castVote_disj:
  "(\<exists>err. castVote s eid cid now h = (Inl err, s)) \<or>
   (\<exists>account election c.
      truthyAccount s = Some account \<and>
      map_of (elections s) eid = Some election \<and>
      isActive election \<and>
      \<not> hasVoted_in s eid account \<and>
      find (\<lambda>c. c_id c = cid) (candidates election) = Some c \<and>
      castVote s eid cid now h =
         (Inr h,
          s\<lparr>elections := AList.update eid
               (election\<lparr>candidates := incrementFound cid (candidates election),
                         totalVotes := totalVotes election + 1\<rparr>) (elections s),
            votes := AList.update eid
               ((case map_of (votes s) eid of None \<Rightarrow> [] | Some vs \<Rightarrow> vs)
                @ [\<lparr>electionId = eid, candidateId = cid, voterAddress = account,
                     timestamp = now, txHash = h\<rparr>]) (votes s),
            voters := (case map_of (voters s) account of
                         None \<Rightarrow> voters s
                       | Some vr \<Rightarrow> AList.update account
                           (vr\<lparr>hasVoted := AList.update eid True (hasVoted vr)\<rparr>) (voters s))\<rparr>))"
  by (simp add: castVote_def Let_def split: option.splits)

lemma castVote_cases:
  obtains (fail) err where "castVote s eid cid now h = (Inl err, s)"
  | (ok) account election c where
      "truthyAccount s = Some account"
      "map_of (elections s) eid = Some election"
      "isActive election"
      "\<not> hasVoted_in s eid account"
      "find (\<lambda>c. c_id c = cid) (candidates election) = Some c"
      "castVote s eid cid now h =
         (Inr h,
          s\<lparr>elections := AList.update eid
               (election\<lparr>candidates := incrementFound cid (candidates election),
                         totalVotes := totalVotes election + 1\<rparr>) (elections s),
            votes := AList.update eid
               ((case map_of (votes s) eid of None \<Rightarrow> [] | Some vs \<Rightarrow> vs)
                @ [\<lparr>electionId = eid, candidateId = cid, voterAddress = account,
                     timestamp = now, txHash = h\<rparr>]) (votes s),
            voters := (case map_of (voters s) account of
                         None \<Rightarrow> voters s
                       | Some vr \<Rightarrow> AList.update account
                           (vr\<lparr>hasVoted := AList.update eid True (hasVoted vr)\<rparr>) (voters s))\<rparr>)"
  using castVote_disj [of s eid cid now h] by blast





lemma truthyAccount_Some: "truthyAccount s = Some a \<Longrightarrow> currentAccount s = Some a"
  by (auto simp: truthyAccount_def split: option.splits if_splits)

lemma hasVoted_in_cong:
  "voters s' = voters s \<Longrightarrow> hasVoted_in s' eid a = hasVoted_in s eid a"
  by (simp add: hasVoted_in_def)

lemma hasVoted_in_marked:
  assumes "map_of (voters s) account = Some vr"
    "voters s' = AList.update account (vr\<lparr>hasVoted := AList.update eid True (hasVoted vr)\<rparr>) (voters s)"
  shows "hasVoted_in s' e a = (hasVoted_in s e a \<or> (e = eid \<and> a = account))"
  using assms by (auto simp: hasVoted_in_def update_conv' split: option.splits)

lemma hasVoted_in_connect:
  "hasVoted_in s e a \<Longrightarrow> hasVoted_in (snd (connectWallet s b adm)) e a"
  by (auto simp: hasVoted_in_def connectWallet_def Let_def update_conv' split: option.splits)

lemma hasVoted_in_record:
  "hasVoted_in s e a \<Longrightarrow>
   \<exists>r. map_of (voters s) a = Some r \<and> map_of (hasVoted r) e = Some True"
  by (auto simp: hasVoted_in_def split: option.splits)

subsection \<open>The tally invariant\<close>

lemma tallies_ok_update:
  assumes "tallies_ok s" "elections s' = AList.update k e (elections s)"
    "totalVotes e = sum_list (map voteCount (candidates e))"
  shows "tallies_ok s'"
  using assms set_update_subset [of k e "elections s"]
  unfolding tallies_ok_def by fastforce

lemma tallies_castVote: "tallies_ok s \<Longrightarrow> tallies_ok (snd (castVote s eid cid now h))"
proof (cases rule: castVote_cases [of s eid cid now h])
  case (fail err)
  assume "tallies_ok s"
  with fail show ?thesis by simp
next
  case (ok account election c)
  assume inv: "tallies_ok s"
  from ok(2) have "(eid, election) \<in> set (elections s)" by (rule map_of_SomeD)
  with inv have "totalVotes election = sum_list (map voteCount (candidates election))"
    unfolding tallies_ok_def by force
  with ok(5) have "totalVotes election + 1
      = sum_list (map voteCount (incrementFound cid (candidates election)))"
    by (simp add: sum_incrementFound)
  then show ?thesis
    using inv ok(6) by (auto intro!: tallies_ok_update [where s = s])
qed

lemma tallies_createElection:
  "tallies_ok s \<Longrightarrow> tallies_ok (snd (createElection s t d st en n1 n2 n3))"
  by (auto simp: createElection_def Let_def intro!: tallies_ok_update [where s = s])

lemma tallies_addCandidate:
  assumes "tallies_ok s" shows "tallies_ok (snd (addCandidate s eid nm d img now))"
proof (cases "isAdmin s")
  case False
  with assms show ?thesis by (simp add: addCandidate_def)
next
  case True
  show ?thesis
  proof (cases "map_of (elections s) eid")
    case None
    with assms True show ?thesis by (simp add: addCandidate_def)
  next
    case (Some e)
    then have "(eid, e) \<in> set (elections s)" by (rule map_of_SomeD)
    with assms have "totalVotes e = sum_list (map voteCount (candidates e))"
      unfolding tallies_ok_def by force
    with assms True Some show ?thesis
      by (auto simp: addCandidate_def Let_def
          intro!: tallies_ok_update [where s = s and k = eid])
  qed
qed

lemma tallies_connectWallet: "tallies_ok s \<Longrightarrow> tallies_ok (snd (connectWallet s a adm))"
  by (simp add: connectWallet_def tallies_ok_def Let_def)

lemma tallies_exec: "tallies_ok s \<Longrightarrow> tallies_ok (exec s c)"
proof (cases c)
  case (ConnectWallet a adm)
  assume "tallies_ok s"
  with ConnectWallet show ?thesis by (simp add: tallies_connectWallet)
next
  case DisconnectWallet
  assume "tallies_ok s"
  with DisconnectWallet show ?thesis by (simp add: disconnectWallet_def tallies_ok_def)
next
  case (CreateElection t d st en n1 n2 n3)
  assume "tallies_ok s"
  with CreateElection show ?thesis by (simp add: tallies_createElection)
next
  case (AddCandidate eid nm d img now)
  assume "tallies_ok s"
  with AddCandidate show ?thesis by (simp add: tallies_addCandidate)
next
  case GetAllElections
  assume "tallies_ok s"
  with GetAllElections show ?thesis by (simp add: getAllElections_def)
next
  case (GetElection eid)
  assume "tallies_ok s"
  with GetElection show ?thesis by (simp add: getElection_def split: option.splits)
next
  case (CastVote eid cid now h)
  assume "tallies_ok s"
  with CastVote show ?thesis by (simp add: tallies_castVote)
next
  case (GetElectionResults eid)
  assume "tallies_ok s"
  with GetElectionResults show ?thesis by (simp add: getElectionResults_def split: option.splits)
next
  case (GetTransactionStatus h k)
  assume "tallies_ok s"
  with GetTransactionStatus show ?thesis by (simp add: getTransactionStatus_def)
qed

lemma tallies_run: "tallies_ok s \<Longrightarrow> tallies_ok (run s cs)"
  unfolding run_def by (induction cs arbitrary: s) (simp_all add: tallies_exec)

lemma tallies_init: "tallies_ok (initializeSampleData n1 n2)"
  by (simp add: tallies_ok_def initializeSampleData_def sampleElection_def empty_state_def)

subsection \<open>The connected account is registered\<close>

lemma registered_castVote: "registered s \<Longrightarrow> registered (snd (castVote s eid cid now h))"
proof (cases rule: castVote_cases [of s eid cid now h])
  case (fail err)
  assume "registered s"
  with fail show ?thesis by simp
next
  case (ok account election c)
  assume "registered s"
  with ok(6) show ?thesis
    by (auto simp: registered_def update_conv' split: option.splits)
qed

lemma registered_exec: "registered s \<Longrightarrow> registered (exec s c)"
proof (cases c)
  case (ConnectWallet a adm)
  assume "registered s"
  with ConnectWallet show ?thesis
    by (auto simp: registered_def connectWallet_def Let_def update_conv')
next
  case DisconnectWallet
  assume "registered s"
  with DisconnectWallet show ?thesis by (simp add: disconnectWallet_def registered_def)
next
  case (CreateElection t d st en n1 n2 n3)
  assume "registered s"
  with CreateElection show ?thesis by (simp add: createElection_def registered_def Let_def)
next
  case (AddCandidate eid nm d img now)
  assume "registered s"
  with AddCandidate show ?thesis
    by (simp add: addCandidate_def registered_def Let_def split: option.splits)
next
  case GetAllElections
  assume "registered s"
  with GetAllElections show ?thesis by (simp add: getAllElections_def)
next
  case (GetElection eid)
  assume "registered s"
  with GetElection show ?thesis by (simp add: getElection_def split: option.splits)
next
  case (CastVote eid cid now h)
  assume "registered s"
  with CastVote show ?thesis by (simp add: registered_castVote)
next
  case (GetElectionResults eid)
  assume "registered s"
  with GetElectionResults show ?thesis by (simp add: getElectionResults_def split: option.splits)
next
  case (GetTransactionStatus h k)
  assume "registered s"
  with GetTransactionStatus show ?thesis by (simp add: getTransactionStatus_def)
qed


lemma registered_init: "registered (initializeSampleData n1 n2)"
  by (simp add: registered_def initializeSampleData_def empty_state_def Let_def)


subsection \<open>The ledger invariant\<close>

text \<open>A ledger whose flags only grow and whose vote lists are unchanged stays consistent.\<close>

lemma ledger_ok_mono:
  assumes "ledger_ok s" "votes s' = votes s"
    "\<And>e a. hasVoted_in s e a \<Longrightarrow> hasVoted_in s' e a"
  shows "ledger_ok s'"
  using assms unfolding ledger_ok_def by fastforce

lemma ledger_ok_update:
  assumes inv: "ledger_ok s"
    and vs: "votes s' = AList.update k ws (votes s)"
    and mono: "\<And>e a. hasVoted_in s e a \<Longrightarrow> hasVoted_in s' e a"
    and new: "\<forall>v \<in> set ws. electionId v = k \<and> hasVoted_in s' k (voterAddress v)"
    and dist: "distinct (map voterAddress ws)"
  shows "ledger_ok s'"
proof -
  have keys: "distinct (map fst (votes s'))"
    using inv vs by (simp add: ledger_ok_def distinct_update)
  have "(\<forall>v \<in> set us. electionId v = e \<and> hasVoted_in s' e (voterAddress v))
        \<and> distinct (map voterAddress us)"
    if "(e, us) \<in> set (votes s')" for e us
  proof (cases "(e, us) = (k, ws)")
    case True
    with new dist show ?thesis by simp
  next
    case False
    with that vs set_update_subset [of k ws "votes s"] have "(e, us) \<in> set (votes s)" by auto
    with inv mono show ?thesis unfolding ledger_ok_def by fastforce
  qed
  with keys show ?thesis unfolding ledger_ok_def by auto
qed

lemma ledger_castVote:
  assumes inv: "ledger_ok s" and reg: "registered s"
  shows "ledger_ok (snd (castVote s eid cid now h))"
proof (cases rule: castVote_cases [of s eid cid now h])
  case (fail err)
  with inv show ?thesis by simp
next
  case (ok account election c)
  let ?s' = "snd (castVote s eid cid now h)"
  let ?old = "case map_of (votes s) eid of None \<Rightarrow> [] | Some vs \<Rightarrow> vs"
  let ?v = "\<lparr>electionId = eid, candidateId = cid, voterAddress = account,
             timestamp = now, txHash = h\<rparr>"
  from ok(1) reg obtain vr where vr: "map_of (voters s) account = Some vr"
    using truthyAccount_Some unfolding registered_def by blast
  with ok(6) have voters': "voters ?s' = AList.update account
      (vr\<lparr>hasVoted := AList.update eid True (hasVoted vr)\<rparr>) (voters s)"
    by simp
  have hv: "hasVoted_in ?s' e a = (hasVoted_in s e a \<or> (e = eid \<and> a = account))" for e a
    by (rule hasVoted_in_marked [OF vr voters'])
  have old: "(\<forall>v \<in> set ?old. electionId v = eid \<and> hasVoted_in s eid (voterAddress v))
             \<and> distinct (map voterAddress ?old)"
  proof (cases "map_of (votes s) eid")
    case None
    then show ?thesis by simp
  next
    case (Some vs)
    then have "(eid, vs) \<in> set (votes s)" by (rule map_of_SomeD)
    with inv Some show ?thesis unfolding ledger_ok_def by fastforce
  qed
  with ok(4) have fresh: "account \<notin> voterAddress ` set ?old" by auto
  show ?thesis
  proof (rule ledger_ok_update [OF inv, where k = eid and ws = "?old @ [?v]"])
    show "votes ?s' = AList.update eid (?old @ [?v]) (votes s)" using ok(6) by simp
    show "hasVoted_in ?s' e a" if "hasVoted_in s e a" for e a using that hv by simp
    show "\<forall>v \<in> set (?old @ [?v]). electionId v = eid \<and> hasVoted_in ?s' eid (voterAddress v)"
      using old hv by auto
    show "distinct (map voterAddress (?old @ [?v]))" using old fresh by auto
  qed
qed

lemma ledger_exec:
  assumes "ledger_ok s" "registered s"
  shows "ledger_ok (exec s c)"
proof (cases c)
  case (ConnectWallet a adm)
  have "votes (snd (connectWallet s a adm)) = votes s"
    by (simp add: connectWallet_def Let_def)
  with assms(1) ConnectWallet show ?thesis
    by (auto intro: ledger_ok_mono [where s = s] hasVoted_in_connect)
next
  case DisconnectWallet
  with assms(1) show ?thesis
    by (auto intro!: ledger_ok_mono [where s = s] simp: disconnectWallet_def hasVoted_in_def)
next
  case (CreateElection t d st en n1 n2 n3)
  show ?thesis
  proof (cases "isAdmin s")
    case False
    with assms(1) CreateElection show ?thesis by (simp add: createElection_def)
  next
    case True
    with assms(1) CreateElection show ?thesis
      by (auto simp: createElection_def Let_def hasVoted_in_def
          intro!: ledger_ok_update [where s = s and ws = "[]"
                  and k = "''election-'' @ string_of_number n1"])
  qed
next
  case (AddCandidate eid nm d img now)
  with assms(1) show ?thesis
    by (auto intro!: ledger_ok_mono [where s = s]
        simp: addCandidate_def Let_def hasVoted_in_def split: option.splits)
next
  case GetAllElections
  with assms(1) show ?thesis by (simp add: getAllElections_def)
next
  case (GetElection eid)
  with assms(1) show ?thesis by (simp add: getElection_def split: option.splits)
next
  case (CastVote eid cid now h)
  with assms show ?thesis by (simp add: ledger_castVote)
next
  case (GetElectionResults eid)
  with assms(1) show ?thesis by (simp add: getElectionResults_def split: option.splits)
next
  case (GetTransactionStatus h k)
  with assms(1) show ?thesis by (simp add: getTransactionStatus_def)
qed

lemma ledger_run: "ledger_ok s \<Longrightarrow> registered s \<Longrightarrow> ledger_ok (run s cs)"
  unfolding run_def
  by (induction cs arbitrary: s) (simp_all add: ledger_exec registered_exec)

lemma ledger_init: "ledger_ok (initializeSampleData n1 n2)"
  by (simp add: ledger_ok_def initializeSampleData_def empty_state_def Let_def)

lemma distinct_pairs_concat:
  assumes "distinct (map fst al)"
    "\<forall>(k, vs) \<in> set al. (\<forall>v \<in> set vs. g v = k) \<and> distinct (map f vs)"
  shows "distinct (map (\<lambda>v. (f v, g v)) (concat (map snd al)))"
  using assms
proof (induction al)
  case Nil
  then show ?case by simp
next
  case (Cons p al)
  obtain k vs where p: "p = (k, vs)" by (cases p)
  from Cons.prems(1) p have k: "k \<notin> fst ` set al" by simp
  from Cons.prems(2) p have vs: "\<forall>v \<in> set vs. g v = k" and dvs: "distinct (map f vs)"
    by simp_all
  from Cons.prems(2) have tl: "\<forall>(k, vs) \<in> set al. (\<forall>v \<in> set vs. g v = k) \<and> distinct (map f vs)"
    by simp
  from dvs have "distinct vs" "inj_on f (set vs)" by (simp_all add: distinct_map)
  then have here: "distinct (map (\<lambda>v. (f v, g v)) vs)"
    unfolding distinct_map inj_on_def by blast
  from Cons.prems(1) have dal: "distinct (map fst al)" by simp
  from dal tl have rest: "distinct (map (\<lambda>v. (f v, g v)) (concat (map snd al)))"
    by (rule Cons.IH)
  have other: "g w \<in> fst ` set al" if "w \<in> set (concat (map snd al))" for w
  proof -
    from that obtain q where q: "q \<in> set al" "w \<in> set (snd q)" by auto
    with tl have "g w = fst q" by (cases q) auto
    with q(1) show ?thesis by simp
  qed
  have disj: "(\<lambda>v. (f v, g v)) ` set vs \<inter> (\<lambda>v. (f v, g v)) ` set (concat (map snd al)) = {}"
  proof (rule ccontr)
    assume "\<not> ?thesis"
    then obtain v w where "v \<in> set vs" "w \<in> set (concat (map snd al))" "g v = g w"
      by blast
    with vs other k show False by metis
  qed
  from here rest disj show ?case unfolding p by simp
qed

lemma ledger_ok_entry:
  assumes "ledger_ok s" "(eid, vs) \<in> set (votes s)" "v \<in> set vs"
  shows "electionId v = eid" "hasVoted_in s eid (voterAddress v)"
  using assms unfolding ledger_ok_def by blast+

lemma ledger_ok_distinct:
  assumes "ledger_ok s"
  shows "distinct (map (\<lambda>v. (voterAddress v, electionId v)) (concat (map snd (votes s))))"
proof (rule distinct_pairs_concat)
  show "distinct (map fst (votes s))" using assms by (simp add: ledger_ok_def)
  show "\<forall>(k, vs) \<in> set (votes s).
          (\<forall>v \<in> set vs. electionId v = k) \<and> distinct (map voterAddress vs)"
    using assms unfolding ledger_ok_def by blast
qed

subsection \<open>The stable sort\<close>

lemma insertBy_key: "insertBy byVoteCountDesc x ys = insort_key (\<lambda>c. - voteCount c) x ys"
  by (induction ys) (auto simp: byVoteCountDesc_def)

lemma stableSort_key: "stableSort byVoteCountDesc xs = sort_key (\<lambda>c. - voteCount c) xs"
  by (induction xs) (auto simp: stableSort_def insertBy_key sort_key_def)

lemma stableSort_desc: "sorted_wrt (\<lambda>a b. voteCount a \<ge> voteCount b) (stableSort byVoteCountDesc xs)"
proof -
  have "sorted (map (\<lambda>c. - voteCount c) (sort_key (\<lambda>c. - voteCount c) xs))"
    by (rule sorted_sort_key)
  then show ?thesis
    by (simp add: stableSort_key sorted_map)
qed

lemma stableSort_stable:
  "filter (\<lambda>c. voteCount c = k) (stableSort byVoteCountDesc xs) = filter (\<lambda>c. voteCount c = k) xs"
proof -
  have "filter (\<lambda>c. - voteCount c = - k) (sort_key (\<lambda>c. - voteCount c) xs)
        = filter (\<lambda>c. - voteCount c = - k) xs"
    by (rule sort_key_stable)
  then show ?thesis by (simp add: stableSort_key)
qed

lemma stableSort_mset: "mset (stableSort byVoteCountDesc xs) = mset xs"
  by (simp add: stableSort_key)

lemma stableSort_no_votes:
  assumes "\<forall>c \<in> set xs. voteCount c = 0"
  shows "stableSort byVoteCountDesc xs = xs"
proof -
  have "set (stableSort byVoteCountDesc xs) = set xs"
    using stableSort_mset [of xs] by (metis set_mset_mset)
  with assms have "filter (\<lambda>c. voteCount c = 0) (stableSort byVoteCountDesc xs) = stableSort byVoteCountDesc xs"
    by simp
  moreover from assms have "filter (\<lambda>c. voteCount c = 0) xs = xs" by simp
  ultimately show ?thesis using stableSort_stable [of 0 xs] by simp
qed

section \<open>Voting\<close>




text \<open>
  Claim C2. After any sequence of calls on a fresh service (wallet calls, \<open>createElection\<close>,
  \<open>addCandidate\<close>, \<open>castVote\<close> and the read operations), every election's \<open>totalVotes\<close>
  is the sum of the \<open>voteCount\<close>s of its candidates.
\<close>

theorem totalVotes_is_sum:
  "\<forall>e \<in> snd ` set (elections (run (initializeSampleData n1 n2) cs)).
     totalVotes e = sum_list (map voteCount (candidates e))"
  using tallies_run [OF tallies_init, of n1 n2 cs] by (simp add: tallies_ok_def)

theorem totalVotes_is_sum_witness:
  "map (\<lambda>e. (totalVotes e, map voteCount (candidates e)))
     (map snd (elections (run (initializeSampleData 0 0)
       [ConnectWallet ''0xa1'' True,
        CastVote ''election-1'' ''candidate-2'' 5 ''0xf00'',
        CreateElection ''t'' ''d'' 0 9 3 3 3,
        AddCandidate ''election-3'' ''n'' ''d'' None 4,
        CastVote ''election-3'' ''candidate-4'' 6 ''0xf01''])))
   = [(1, [0, 1, 0]), (1, [1])]
   \<and> list_all (\<lambda>e. totalVotes e = sum_list (map voteCount (candidates e)))
       (map snd (elections (run (initializeSampleData 0 0)
       [ConnectWallet ''0xa1'' True,
        CastVote ''election-1'' ''candidate-2'' 5 ''0xf00'',
        CreateElection ''t'' ''d'' 0 9 3 3 3,
        AddCandidate ''election-3'' ''n'' ''d'' None 4,
        CastVote ''election-3'' ''candidate-4'' 6 ''0xf01''])))"
  using totalVotes_is_sum [of 0 0 "[ConnectWallet ''0xa1'' True,
        CastVote ''election-1'' ''candidate-2'' 5 ''0xf00'',
        CreateElection ''t'' ''d'' 0 9 3 3 3,
        AddCandidate ''election-3'' ''n'' ''d'' None 4,
        CastVote ''election-3'' ''candidate-4'' 6 ''0xf01'']"]
  by (simp add: eval_defs)

text \<open>
  Claim C3 says a vote is accepted only while \<open>startTime \<le> now \<le> endTime\<close>. \<open>castVote\<close>
  reads the stored \<open>isActive\<close> flag, which \<open>createElection\<close> computes once from the clock
  and nothing updates. On the sample election a vote cast after \<open>endTime\<close> is accepted and
  counted; an election created before its \<open>startTime\<close> rejects a vote cast inside its
  window with "Election is not active".
\<close>

theorem castVote_ignores_window:
  "endTime (sampleElection 1700000000000 1700000000000) < 1800000000000
   \<and> fst (castVote (snd (connectWallet (initializeSampleData 1700000000000 1700000000000)
            ''0xa1'' False))
          ''election-1'' ''candidate-1'' 1800000000000 ''0xf00'') = Inr ''0xf00''
   \<and> map (\<lambda>e. (totalVotes e, map voteCount (candidates e)))
        (map snd (elections (snd (castVote
          (snd (connectWallet (initializeSampleData 1700000000000 1700000000000)
            ''0xa1'' False))
          ''election-1'' ''candidate-1'' 1800000000000 ''0xf00''))))
      = [(1, [1, 0, 0])]
   \<and> fst (castVote (run (initializeSampleData 1700000000000 1700000000000)
          [ConnectWallet ''0xa1'' True,
           CreateElection ''Later'' ''later'' 1700000002000 1700003600000
             1700000001000 1700000001000 1700000001000,
           AddCandidate ''election-1700000001000'' ''Dan'' ''d'' None 1700000001800])
          ''election-1700000001000'' ''candidate-1700000001800'' 1700000003000 ''0xf01'')
     = Inl ElectionNotActive"
  by (simp add: eval_defs)

section \<open>Election management\<close>

text \<open>
  Claim C4, as amended. \<open>createElection\<close> validates nothing about the title, the
  description or the time range. Called by an admin it always succeeds, returns
  \<open>"election-" + Date.now()\<close> and stores the record with the fields it was given, no
  candidates, no votes and \<open>isActive\<close> computed from the clock. It fails only for a caller
  who is not admin, with "Only admin can create elections", and then the state is
  unchanged: no record is created.
\<close>

theorem createElection_admin_only:
  "(\<not> isAdmin s \<longrightarrow>
      createElection s ttl descr start end now_id now_a now_b = (Inl OnlyAdminCreate, s))
   \<and> (isAdmin s \<longrightarrow>
      fst (createElection s ttl descr start end now_id now_a now_b)
        = Inr (''election-'' @ string_of_number now_id)
      \<and> map_of (elections (snd (createElection s ttl descr start end now_id now_a now_b)))
          (''election-'' @ string_of_number now_id)
        = Some \<lparr>e_id = ''election-'' @ string_of_number now_id, title = ttl,
                 e_description = descr, startTime = start, endTime = end,
                 isActive = (start \<le> now_a \<and> now_b \<le> end),
                 candidates = [], totalVotes = 0\<rparr>)
   \<and> (fst (createElection s ttl descr start end now_id now_a now_b) = Inl err \<longrightarrow>
      err = OnlyAdminCreate \<and> snd (createElection s ttl descr start end now_id now_a now_b) = s)"
  by (auto simp: createElection_def Let_def update_conv')

theorem createElection_admin_only_witness:
  "\<not> isAdmin (initializeSampleData 0 0)
   \<and> createElection (initializeSampleData 0 0) ''t'' ''d'' 1 9 5 5 5
       = (Inl OnlyAdminCreate, initializeSampleData 0 0)
   \<and> isAdmin (snd (connectWallet (initializeSampleData 0 0) ''0xa1'' True))
   \<and> fst (createElection (snd (connectWallet (initializeSampleData 0 0) ''0xa1'' True))
        ''t'' ''d'' 1 9 5 5 5) = Inr ''election-5''"
  using createElection_admin_only [of "initializeSampleData 0 0" "''t''" "''d''" 1 9 5 5 5
      OnlyAdminCreate]
    createElection_admin_only [of "snd (connectWallet (initializeSampleData 0 0) ''0xa1'' True)"
      "''t''" "''d''" 1 9 5 5 5 OnlyAdminCreate]
  by (simp add: eval_defs)

text \<open>
  Claim C4 as stated fails: an admin's call with an empty title, an empty description,
  \<open>startTime > endTime\<close> and an \<open>endTime\<close> in the past succeeds and stores the record.
\<close>

theorem createElection_unvalidated_counterexample:
  "fst (createElection
          (snd (connectWallet (initializeSampleData 1700000000000 1700000000000) ''0xa1'' True))
          [] [] 1600000000000 1500000000000
          1700000001000 1700000001000 1700000001000)
     = Inr ''election-1700000001000''
   \<and> map_of (elections (snd (createElection
          (snd (connectWallet (initializeSampleData 1700000000000 1700000000000) ''0xa1'' True))
          [] [] 1600000000000 1500000000000
          1700000001000 1700000001000 1700000001000)))
        ''election-1700000001000''
     = Some \<lparr>e_id = ''election-1700000001000'', title = [], e_description = [],
              startTime = 1600000000000, endTime = 1500000000000, isActive = False,
              candidates = [], totalVotes = 0\<rparr>"
  by (simp add: eval_defs)

text \<open>
  Claim C5, as amended. For every existing election, \<open>addCandidate\<close> called by an admin
  succeeds whatever the clock reads, before or after \<open>startTime\<close>, and appends the
  candidate, with no votes, at the end of the ballot. It fails only for a caller who is
  not admin ("Only admin can add candidates") or for an unknown election ("Election not
  found"), and then the state is unchanged: no candidate is appended.
\<close>

theorem addCandidate_any_time:
  "(isAdmin s \<and> map_of (elections s) eid = Some e \<longrightarrow>
      fst (addCandidate s eid nm descr img now) = Inr (''candidate-'' @ string_of_number now)
      \<and> map_of (elections (snd (addCandidate s eid nm descr img now))) eid
        = Some (e\<lparr>candidates := candidates e @
                  [\<lparr>c_id = ''candidate-'' @ string_of_number now, name = nm,
                    c_description = descr, voteCount = 0, imageUrl = img\<rparr>]\<rparr>))
   \<and> (\<not> isAdmin s \<longrightarrow> addCandidate s eid nm descr img now = (Inl OnlyAdminAdd, s))
   \<and> (isAdmin s \<and> map_of (elections s) eid = None \<longrightarrow>
      addCandidate s eid nm descr img now = (Inl ElectionNotFound, s))
   \<and> (fst (addCandidate s eid nm descr img now) = Inl err \<longrightarrow>
      snd (addCandidate s eid nm descr img now) = s)"
  by (auto simp: addCandidate_def Let_def update_conv' split: option.splits)

theorem addCandidate_any_time_witness:
  "isAdmin (snd (connectWallet (initializeSampleData 0 0) ''0xa1'' True))
   \<and> map_of (elections (snd (connectWallet (initializeSampleData 0 0) ''0xa1'' True)))
        ''election-1'' = Some (sampleElection 0 0)
   \<and> startTime (sampleElection 0 0) \<le> 7
   \<and> fst (addCandidate (snd (connectWallet (initializeSampleData 0 0) ''0xa1'' True))
        ''election-1'' ''Dan'' ''d'' None 7) = Inr ''candidate-7''
   \<and> map_of (elections (snd (connectWallet (initializeSampleData 0 0) ''0xa1'' True)))
        ''election-9'' = None
   \<and> addCandidate (snd (connectWallet (initializeSampleData 0 0) ''0xa1'' True))
        ''election-9'' ''Dan'' ''d'' None 7
      = (Inl ElectionNotFound, snd (connectWallet (initializeSampleData 0 0) ''0xa1'' True))
   \<and> \<not> isAdmin (initializeSampleData 0 0)
   \<and> addCandidate (initializeSampleData 0 0) ''election-1'' ''Dan'' ''d'' None 7
      = (Inl OnlyAdminAdd, initializeSampleData 0 0)"
  using addCandidate_any_time [of "snd (connectWallet (initializeSampleData 0 0) ''0xa1'' True)"
      "''election-1''" "sampleElection 0 0" "''Dan''" "''d''" None 7 ElectionNotFound]
    addCandidate_any_time [of "snd (connectWallet (initializeSampleData 0 0) ''0xa1'' True)"
      "''election-9''" "sampleElection 0 0" "''Dan''" "''d''" None 7 ElectionNotFound]
    addCandidate_any_time [of "initializeSampleData 0 0"
      "''election-1''" "sampleElection 0 0" "''Dan''" "''d''" None 7 OnlyAdminAdd]
  by (simp add: eval_defs)

text \<open>
  Claim C5 as stated fails: on the sample election, which started an hour before the
  service was constructed, an admin's \<open>addCandidate\<close> succeeds and the ballot grows.
\<close>

theorem addCandidate_after_start_counterexample:
  "startTime (sampleElection 1700000000000 1700000000000) \<le> 1700000000800
   \<and> fst (addCandidate
          (snd (connectWallet (initializeSampleData 1700000000000 1700000000000) ''0xa1'' True))
          ''election-1'' ''Dan'' ''d'' None 1700000000800)
     = Inr ''candidate-1700000000800''
   \<and> map (\<lambda>(k, e). map c_id (candidates e))
        (elections (snd (addCandidate
          (snd (connectWallet (initializeSampleData 1700000000000 1700000000000) ''0xa1'' True))
          ''election-1'' ''Dan'' ''d'' None 1700000000800)))
     = [[''candidate-1'', ''candidate-2'', ''candidate-3'', ''candidate-1700000000800'']]"
  by (simp add: eval_defs)

section \<open>Results\<close>

text \<open>
  Claim C6. For every existing election \<open>getElectionResults\<close> succeeds, leaves the state
  unchanged and returns a rearrangement of the election's candidates in descending order
  of \<open>voteCount\<close>, in which the candidates of each \<open>voteCount\<close> stand in their ballot
  order. When no candidate has a vote the ballot order is returned as it is.
\<close>

theorem getElectionResults_sorted_stable:
  assumes "map_of (elections s) eid = Some e"
  shows "\<exists>r. getElectionResults s eid = (Inr r, s)
           \<and> mset r = mset (candidates e)
           \<and> sorted_wrt (\<lambda>a b. voteCount a \<ge> voteCount b) r
           \<and> (\<forall>k. filter (\<lambda>c. voteCount c = k) r = filter (\<lambda>c. voteCount c = k) (candidates e))
           \<and> ((\<forall>c \<in> set (candidates e). voteCount c = 0) \<longrightarrow> r = candidates e)"
  using assms
  by (simp add: getElectionResults_def stableSort_desc stableSort_stable stableSort_mset
      stableSort_no_votes)

theorem getElectionResults_sorted_stable_witness:
  "map_of (elections (run (initializeSampleData 0 0)
       [ConnectWallet ''0xa1'' False, CastVote ''election-1'' ''candidate-3'' 5 ''0xf00'',
        ConnectWallet ''0xb2'' False, CastVote ''election-1'' ''candidate-2'' 6 ''0xf01'']))
     ''election-1''
     = Some ((sampleElection 0 0)
         \<lparr>candidates := map (\<lambda>(c, n). c\<lparr>voteCount := n\<rparr>)
            (zip (candidates (sampleElection 0 0)) [0, 1, 1]),
          totalVotes := 2\<rparr>)
   \<and> map (\<lambda>c. (c_id c, voteCount c)) (projr (fst (getElectionResults
       (run (initializeSampleData 0 0)
       [ConnectWallet ''0xa1'' False, CastVote ''election-1'' ''candidate-3'' 5 ''0xf00'',
        ConnectWallet ''0xb2'' False, CastVote ''election-1'' ''candidate-2'' 6 ''0xf01''])
       ''election-1'')))
     = [(''candidate-2'', 1), (''candidate-3'', 1), (''candidate-1'', 0)]"
proof -
  have h: "map_of (elections (run (initializeSampleData 0 0)
       [ConnectWallet ''0xa1'' False, CastVote ''election-1'' ''candidate-3'' 5 ''0xf00'',
        ConnectWallet ''0xb2'' False, CastVote ''election-1'' ''candidate-2'' 6 ''0xf01'']))
     ''election-1''
     = Some ((sampleElection 0 0)
         \<lparr>candidates := map (\<lambda>(c, n). c\<lparr>voteCount := n\<rparr>)
            (zip (candidates (sampleElection 0 0)) [0, 1, 1]),
          totalVotes := 2\<rparr>)"
    by (simp add: eval_defs)
  show ?thesis
    using h getElectionResults_sorted_stable [OF h]
    by (simp add: eval_defs)
qed

section \<open>Identifiers, ledger, status and wallet\<close>

text \<open>
  Claim C7 says identifiers are never reused. Both identifiers are the clock reading as
  text. Two \<open>createElection\<close> calls that read the same millisecond return the same
  identifier, and the second record replaces the first; two \<open>addCandidate\<close> calls that
  read the same millisecond put two candidates with the same identifier on one ballot.
\<close>

theorem createElection_same_clock_same_id:
  "fst (createElection
          (snd (connectWallet (initializeSampleData 1700000000000 1700000000000) ''0xa1'' True))
          ''First'' ''first'' 1700000000000 1700003600000
          1700000001000 1700000001000 1700000001000)
     = Inr ''election-1700000001000''
   \<and> fst (createElection
          (snd (createElection
            (snd (connectWallet (initializeSampleData 1700000000000 1700000000000) ''0xa1'' True))
            ''First'' ''first'' 1700000000000 1700003600000
            1700000001000 1700000001000 1700000001000))
          ''Second'' ''second'' 1700000000000 1700003600000
          1700000001000 1700000001000 1700000001000)
     = Inr ''election-1700000001000''
   \<and> map (\<lambda>(k, e). (k, title e))
        (elections (snd (createElection
          (snd (createElection
            (snd (connectWallet (initializeSampleData 1700000000000 1700000000000) ''0xa1'' True))
            ''First'' ''first'' 1700000000000 1700003600000
            1700000001000 1700000001000 1700000001000))
          ''Second'' ''second'' 1700000000000 1700003600000
          1700000001000 1700000001000 1700000001000)))
     = [(''election-1'', ''2024 Student Council Elections''),
        (''election-1700000001000'', ''Second'')]
   \<and> fst (addCandidate
          (snd (connectWallet (initializeSampleData 1700000000000 1700000000000) ''0xa1'' True))
          ''election-1'' ''Dan'' ''d'' None 1700000000800)
     = Inr ''candidate-1700000000800''
   \<and> fst (addCandidate
          (snd (addCandidate
            (snd (connectWallet (initializeSampleData 1700000000000 1700000000000) ''0xa1'' True))
            ''election-1'' ''Dan'' ''d'' None 1700000000800))
          ''election-1'' ''Eve'' ''e'' None 1700000000800)
     = Inr ''candidate-1700000000800''
   \<and> map (\<lambda>(k, e). map (\<lambda>c. (c_id c, name c)) (candidates e))
        (elections (snd (addCandidate
          (snd (addCandidate
            (snd (connectWallet (initializeSampleData 1700000000000 1700000000000) ''0xa1'' True))
            ''election-1'' ''Dan'' ''d'' None 1700000000800))
          ''election-1'' ''Eve'' ''e'' None 1700000000800)))
     = [[(''candidate-1'', ''Alice Johnson''), (''candidate-2'', ''Bob Smith''),
         (''candidate-3'', ''Carol Davis''), (''candidate-1700000000800'', ''Dan''),
         (''candidate-1700000000800'', ''Eve'')]]"
  by (simp add: eval_defs)

text \<open>
  Claim C8. After any sequence of calls on a fresh service, every vote in the log of an
  election carries that election's identifier, its voter has a record whose \<open>hasVoted\<close>
  flag for that election is \<open>true\<close>, and no two votes of the whole ledger share both
  voter and election.
\<close>

theorem ledger_flags_and_single_vote:
  "(\<forall>(eid, vs) \<in> set (votes (run (initializeSampleData n1 n2) cs)).
      \<forall>v \<in> set vs. electionId v = eid \<and>
        (\<exists>r. map_of (voters (run (initializeSampleData n1 n2) cs)) (voterAddress v) = Some r
             \<and> map_of (hasVoted r) (electionId v) = Some True))
   \<and> distinct (map (\<lambda>v. (voterAddress v, electionId v))
        (concat (map snd (votes (run (initializeSampleData n1 n2) cs)))))"
proof -
  let ?s = "run (initializeSampleData n1 n2) cs"
  have inv: "ledger_ok ?s"
    by (rule ledger_run [OF ledger_init registered_init])
  have "electionId v = eid \<and>
        (\<exists>r. map_of (voters ?s) (voterAddress v) = Some r
             \<and> map_of (hasVoted r) (electionId v) = Some True)"
    if "(eid, vs) \<in> set (votes ?s)" "v \<in> set vs" for eid vs v
    using ledger_ok_entry [OF inv that] hasVoted_in_record [of ?s eid "voterAddress v"]
    by simp
  then have "\<forall>(eid, vs) \<in> set (votes ?s).
      \<forall>v \<in> set vs. electionId v = eid \<and>
        (\<exists>r. map_of (voters ?s) (voterAddress v) = Some r
             \<and> map_of (hasVoted r) (electionId v) = Some True)"
    by blast
  with ledger_ok_distinct [OF inv] show ?thesis by simp
qed

theorem ledger_flags_and_single_vote_witness:
  "map (\<lambda>(k, vs). (k, map voterAddress vs)) (votes (run (initializeSampleData 0 0)
       [ConnectWallet ''0xa1'' False, CastVote ''election-1'' ''candidate-3'' 5 ''0xf00'',
        CastVote ''election-1'' ''candidate-1'' 5 ''0xf02'',
        ConnectWallet ''0xb2'' False, CastVote ''election-1'' ''candidate-2'' 6 ''0xf01'']))
     = [(''election-1'', [''0xa1'', ''0xb2''])]
   \<and> list_all (\<lambda>(eid, vs). list_all (\<lambda>v. electionId v = eid \<and>
         hasVoted_in (run (initializeSampleData 0 0)
       [ConnectWallet ''0xa1'' False, CastVote ''election-1'' ''candidate-3'' 5 ''0xf00'',
        CastVote ''election-1'' ''candidate-1'' 5 ''0xf02'',
        ConnectWallet ''0xb2'' False, CastVote ''election-1'' ''candidate-2'' 6 ''0xf01'']) eid (voterAddress v)) vs)
       (votes (run (initializeSampleData 0 0)
       [ConnectWallet ''0xa1'' False, CastVote ''election-1'' ''candidate-3'' 5 ''0xf00'',
        CastVote ''election-1'' ''candidate-1'' 5 ''0xf02'',
        ConnectWallet ''0xb2'' False, CastVote ''election-1'' ''candidate-2'' 6 ''0xf01'']))
   \<and> distinct (map (\<lambda>v. (voterAddress v, electionId v))
        (concat (map snd (votes (run (initializeSampleData 0 0)
       [ConnectWallet ''0xa1'' False, CastVote ''election-1'' ''candidate-3'' 5 ''0xf00'',
        CastVote ''election-1'' ''candidate-1'' 5 ''0xf02'',
        ConnectWallet ''0xb2'' False, CastVote ''election-1'' ''candidate-2'' 6 ''0xf01''])))))"
  using ledger_flags_and_single_vote [of 0 0
       "[ConnectWallet ''0xa1'' False, CastVote ''election-1'' ''candidate-3'' 5 ''0xf00'',
        CastVote ''election-1'' ''candidate-1'' 5 ''0xf02'',
        ConnectWallet ''0xb2'' False, CastVote ''election-1'' ''candidate-2'' 6 ''0xf01'']"]
  by (simp add: eval_defs)

text \<open>
  Claim C9. \<open>getTransactionStatus\<close> returns the state it was given, whatever status it
  draws; the status \<open>failed\<close> (index 4 of the outcomes) is returned with the state
  unchanged, so no tally, vote or voter record is rolled back.
\<close>

theorem getTransactionStatus_pure:
  "snd (getTransactionStatus s hash k) = s
   \<and> exec s (GetTransactionStatus hash k) = s
   \<and> getTransactionStatus s hash 4 = (Some Failed, s)"
  by (simp add: getTransactionStatus_def outcomes_def)

text \<open>
  Claim C10. When the address \<open>connectWallet\<close> draws already has a voter record, the
  voters, the elections and the vote log are unchanged. After a disconnect and a
  reconnect under that address the record is the same one, a \<open>hasVoted\<close> flag that was
  set is still set, and a vote in that election is rejected with the state unchanged.
\<close>

theorem connectWallet_keeps_record:
  assumes "map_of (voters s) a = Some r"
  shows "voters (snd (connectWallet s a adm)) = voters s
       \<and> elections (snd (connectWallet s a adm)) = elections s
       \<and> votes (snd (connectWallet s a adm)) = votes s
       \<and> map_of (voters (snd (connectWallet (disconnectWallet s) a adm))) a = Some r
       \<and> (hasVoted_in s eid a \<longrightarrow>
            hasVoted_in (snd (connectWallet (disconnectWallet s) a adm)) eid a
            \<and> (\<exists>err. castVote (snd (connectWallet (disconnectWallet s) a adm)) eid cid now h
                  = (Inl err, snd (connectWallet (disconnectWallet s) a adm))))"
proof -
  let ?s' = "snd (connectWallet (disconnectWallet s) a adm)"
  from assms have same: "voters (snd (connectWallet s a adm)) = voters s"
    "elections (snd (connectWallet s a adm)) = elections s"
    "votes (snd (connectWallet s a adm)) = votes s"
    by (simp_all add: connectWallet_def Let_def)
  from assms have v': "voters ?s' = voters s"
    by (simp add: connectWallet_def disconnectWallet_def Let_def)
  have "\<exists>err. castVote ?s' eid cid now h = (Inl err, ?s')" if "hasVoted_in s eid a"
  proof -
    from that v' have "hasVoted_in ?s' eid a" by (simp add: hasVoted_in_def)
    moreover have "truthyAccount ?s' = Some a \<or> truthyAccount ?s' = None"
      by (simp add: truthyAccount_def connectWallet_def Let_def)
    ultimately show ?thesis
      by (auto simp: castVote_def split: option.splits)
  qed
  with same v' assms show ?thesis by (simp add: hasVoted_in_def)
qed

theorem connectWallet_keeps_record_witness:
  "map_of (voters (run (initializeSampleData 0 0)
       [ConnectWallet ''0xa1'' False, CastVote ''election-1'' ''candidate-2'' 5 ''0xf00'']))
     ''0xa1''
     = Some \<lparr>address = ''0xa1'', isRegistered = True, hasVoted = [(''election-1'', True)]\<rparr>
   \<and> hasVoted_in (run (initializeSampleData 0 0)
       [ConnectWallet ''0xa1'' False, CastVote ''election-1'' ''candidate-2'' 5 ''0xf00''])
       ''election-1'' ''0xa1''
   \<and> map_of (voters (run (initializeSampleData 0 0)
       [ConnectWallet ''0xa1'' False, CastVote ''election-1'' ''candidate-2'' 5 ''0xf00'',
        DisconnectWallet, ConnectWallet ''0xa1'' True]))
     ''0xa1''
     = Some \<lparr>address = ''0xa1'', isRegistered = True, hasVoted = [(''election-1'', True)]\<rparr>
   \<and> fst (castVote (run (initializeSampleData 0 0)
       [ConnectWallet ''0xa1'' False, CastVote ''election-1'' ''candidate-2'' 5 ''0xf00'',
        DisconnectWallet, ConnectWallet ''0xa1'' True])
       ''election-1'' ''candidate-1'' 9 ''0xf02'') = Inl AlreadyVoted"
proof -
  have h: "map_of (voters (run (initializeSampleData 0 0)
       [ConnectWallet ''0xa1'' False, CastVote ''election-1'' ''candidate-2'' 5 ''0xf00'']))
     ''0xa1''
     = Some \<lparr>address = ''0xa1'', isRegistered = True, hasVoted = [(''election-1'', True)]\<rparr>"
    by (simp add: eval_defs)
  show ?thesis
    using h connectWallet_keeps_record [OF h, of True "''election-1''" "''candidate-1''" 9 "''0xf02''"]
    by (simp add: eval_defs)
qed

end
